theory Spec2Isabelle
  imports Main
begin

section \<open>Data model\<close>

text \<open>
  Modelled from the spec: the enumeration \<open>Severity\<close> is declared in \<open>atef.check\<close>, which
  is not among the sources. The spec gives it as the ordered enumeration
  success < warning < error < internal_error; the comparison \<open>severity <= Severity.warning\<close>
  of \<open>log_results\<close> is a comparison of the members' integer values.
\<close>

datatype Severity = success | warning | error | internal_error

fun severity_value :: "Severity \<Rightarrow> int" where
  "severity_value success = 0"
| "severity_value warning = 1"
| "severity_value error = 2"
| "severity_value internal_error = 3"

fun severity_name :: "Severity \<Rightarrow> string" where
  "severity_name success = ''success''"
| "severity_name warning = ''warning''"
| "severity_name error = ''error''"
| "severity_name internal_error = ''internal_error''"

text \<open>A \<open>Result\<close>, as far as \<open>log_results\<close> reads it: \<open>result.severity\<close> and \<open>result.reason\<close>.\<close>

record Result =
  severity :: Severity
  reason :: string

text \<open>
  \<open>PVConfiguration\<close> and \<open>DeviceConfiguration\<close> share their fields; the sources read
  \<open>name\<close> (which may be \<open>None\<close> or empty, hence \<open>pv_config.name or "PVConfig"\<close>),
  \<open>description\<close> (likewise) and \<open>checks\<close>. The type of the checks is left open.
\<close>

record 'c Configuration =
  name :: "string option"
  description :: "string option"
  checks :: 'c

type_synonym 'c PVConfiguration = "'c Configuration"
type_synonym 'c DeviceConfiguration = "'c Configuration"

datatype 'c AnyConfiguration =
  PV "'c PVConfiguration"
| Dev "'c DeviceConfiguration"

text \<open>
  \<open>config.pvs\<close> is a sequence; \<open>config.devices\<close> is a dict from device name to
  configuration, iterated by \<open>items()\<close> in insertion order: an association list.
\<close>

record 'c ConfigurationFile =
  pvs :: "'c PVConfiguration list"
  devices :: "(string \<times> 'c DeviceConfiguration) list"

text \<open>An \<open>ophyd.Device\<close>, as far as the sources read it: its class name and its name.\<close>

record Device =
  device_cls :: string
  device_name :: string

text \<open>A raised exception: \<open>ex.__class__.__name__\<close> and \<open>str(ex)\<close>.\<close>

record exn =
  exn_class :: string
  exn_text :: string

datatype py_error = KeyError | IndexError | ValueError | LoadError

datatype 'a outcome = Raises py_error | Returns 'a

text \<open>The levels of the \<open>logging\<close> module.\<close>

definition DEBUG :: int where "DEBUG = 10"
definition INFO :: int where "INFO = 20"
definition WARNING :: int where "WARNING = 30"
definition ERROR :: int where "ERROR = 40"

text \<open>
  What a run does, in program order: calls of the module logger (level, format string,
  arguments), the three calls into the happi device database, the tuples the generator
  yields, and the final clean-up.
\<close>

type_synonym 'c entry = "Device \<times> 'c AnyConfiguration \<times> Severity \<times> Result list"

datatype 'c event =
  LogCall int string "string list"
| ClientFromConfig
| ClientGetItem string
| SearchResultGet string
| Yield "'c entry"
| OphydCleanup

text \<open>
  The collaborators that are not among the sources, as parameters:
  \<open>pv_config_to_device_config\<close> and \<open>check_device\<close> of \<open>atef.check\<close>, the happi client
  (\<open>client[name]\<close> raises \<open>KeyError\<close>: \<open>None\<close>; otherwise the search result's \<open>get()\<close>
  raises or returns a device), the logger's \<open>isEnabledFor\<close>, and the loading of a
  configuration file (\<open>None\<close>: loading raises).
\<close>

record 'c collaborators =
  pv_config_to_device_config :: "'c PVConfiguration \<Rightarrow> string \<times> 'c DeviceConfiguration"
  check_device :: "Device \<Rightarrow> 'c \<Rightarrow> Severity \<times> Result list"
  client :: "string \<Rightarrow> (exn + Device) option"
  isEnabledFor :: "int \<Rightarrow> bool"
  deserialize :: "string \<Rightarrow> 'c ConfigurationFile option"

section \<open>Python idioms\<close>

text \<open>\<open>str(x)\<close> of an optional string, as \<open>%s\<close> formats it.\<close>

fun py_str :: "string option \<Rightarrow> string" where
  "py_str None = ''None''"
| "py_str (Some s) = s"

text \<open>\<open>x or d\<close> for an optional string: \<open>None\<close> and the empty string are falsy.\<close>

fun py_or :: "string option \<Rightarrow> string \<Rightarrow> string" where
  "py_or None d = d"
| "py_or (Some s) d = (if s = [] then d else s)"

text \<open>
  \<open>filtered_devices and name not in filtered_devices\<close>: the filter must be a non-empty
  sequence of strings, and \<open>None\<close> is equal to none of them.
\<close>

fun filtered_out :: "string list option \<Rightarrow> string option \<Rightarrow> bool" where
  "filtered_out None n = False"
| "filtered_out (Some []) n = False"
| "filtered_out (Some (f # fs)) None = True"
| "filtered_out (Some (f # fs)) (Some n) = (n \<notin> set (f # fs))"

section \<open>\<open>atef/bin/check.py\<close>\<close>

subsection \<open>\<open>check_config_file\<close>\<close>

text \<open>The first loop, over \<open>config.pvs\<close>.\<close>

fun check_pvs :: "'c collaborators \<Rightarrow> string list option \<Rightarrow> 'c PVConfiguration list \<Rightarrow> 'c event list" where
  "check_pvs ext filtered_devices [] = []"
| "check_pvs ext filtered_devices (pv_config # rest) =
    (if filtered_out filtered_devices (name pv_config) then
       LogCall DEBUG ''Skipping filtered-out PV-only configuration %s'' [py_str (name pv_config)]
         # check_pvs ext filtered_devices rest
     else
       (case pv_config_to_device_config ext pv_config of (dev_cls, dev_config) \<Rightarrow>
         (let dev = \<lparr>device_cls = dev_cls, device_name = py_or (name pv_config) ''PVConfig''\<rparr> in
           (case check_device ext dev (checks dev_config) of (sev, results) \<Rightarrow>
              LogCall DEBUG ''PV-only configuration %s -> %s'' [py_str (name pv_config), dev_cls]
                # Yield (dev, PV pv_config, sev, results)
                # check_pvs ext filtered_devices rest))))"

text \<open>The second loop, over \<open>config.devices.items()\<close>.\<close>

fun check_devices :: "'c collaborators \<Rightarrow> string list option \<Rightarrow> (string \<times> 'c DeviceConfiguration) list \<Rightarrow> 'c event list" where
  "check_devices ext filtered_devices [] = []"
| "check_devices ext filtered_devices ((dev_name, dev_config) # rest) =
    (if filtered_out filtered_devices (Some dev_name) then
       LogCall DEBUG ''Skipping filtered-out device %s'' [dev_name]
         # check_devices ext filtered_devices rest
     else
       ClientGetItem dev_name #
       (case client ext dev_name of
          None \<Rightarrow>
            LogCall ERROR ''Device %s not in happi database; skipping'' [dev_name]
              # check_devices ext filtered_devices rest
        | Some search_result \<Rightarrow>
            SearchResultGet dev_name #
            (case search_result of
               Inl ex \<Rightarrow>
                 LogCall ERROR ''Device %s invalid in happi database; skipping (%s: %s)''
                     [dev_name, exn_class ex, exn_text ex]
                   # LogCall DEBUG ''Failed to instantiate device %r'' [dev_name]
                   # check_devices ext filtered_devices rest
             | Inr dev \<Rightarrow>
                 (case check_device ext dev (checks dev_config) of (sev, results) \<Rightarrow>
                    Yield (dev, Dev dev_config, sev, results)
                      # check_devices ext filtered_devices rest))))"

definition check_config_file :: "'c collaborators \<Rightarrow> 'c ConfigurationFile \<Rightarrow> string list option \<Rightarrow> 'c event list" where
  "check_config_file ext config filtered_devices =
     check_pvs ext filtered_devices (pvs config) @
     (if devices config = [] then []
      else ClientFromConfig # check_devices ext filtered_devices (devices config))"

text \<open>The tuples a run of the generator yields, in order.\<close>

fun yields :: "'c event list \<Rightarrow> 'c entry list" where
  "yields [] = []"
| "yields (Yield e # evs) = e # yields evs"
| "yields (ev # evs) = yields evs"

text \<open>The events that touch the device database.\<close>

fun is_database_event :: "'c event \<Rightarrow> bool" where
  "is_database_event ClientFromConfig = True"
| "is_database_event (ClientGetItem n) = True"
| "is_database_event (SearchResultGet n) = True"
| "is_database_event ev = False"

subsection \<open>\<open>log_results\<close>\<close>

definition default_severity_to_log_level :: "(Severity \<times> int) list" where
  "default_severity_to_log_level =
     [(success, DEBUG), (warning, WARNING), (error, ERROR), (internal_error, ERROR)]"

definition passed_or_failed :: "Severity \<Rightarrow> string" where
  "passed_or_failed sev =
     (if severity_value sev \<le> severity_value warning then ''passed'' else ''FAILED'')"

text \<open>
  The loop over the results. \<open>severity_to_log_level[result.severity]\<close> raises \<open>KeyError\<close>
  on a mapping that lacks the severity.
\<close>

fun log_reasons :: "(int \<Rightarrow> bool) \<Rightarrow> (Severity \<times> int) list \<Rightarrow> Result list \<Rightarrow> 'c event list \<times> unit outcome" where
  "log_reasons enabled severity_to_log_level [] = ([], Returns ())"
| "log_reasons enabled severity_to_log_level (result # rest) =
    (case map_of severity_to_log_level (severity result) of
       None \<Rightarrow> ([], Raises KeyError)
     | Some log_level \<Rightarrow>
         (if \<not> enabled log_level then log_reasons enabled severity_to_log_level rest
          else (case log_reasons enabled severity_to_log_level rest of
                  (evs, out) \<Rightarrow> (LogCall log_level (reason result) [] # evs, out))))"

definition log_results :: "'c collaborators \<Rightarrow> Device \<Rightarrow> Severity \<Rightarrow> 'c AnyConfiguration \<Rightarrow> Result list
    \<Rightarrow> (Severity \<times> int) list option \<Rightarrow> 'c event list \<times> unit outcome" where
  "log_results ext device sev config results severity_to_log_level =
     (let mapping = (case severity_to_log_level of
                       None \<Rightarrow> default_severity_to_log_level
                     | Some [] \<Rightarrow> default_severity_to_log_level
                     | Some m \<Rightarrow> m);
          descr = (case config of PV c \<Rightarrow> description c | Dev c \<Rightarrow> description c)
      in (case log_reasons (isEnabledFor ext) mapping results of
            (evs, out) \<Rightarrow>
              (LogCall INFO ''Device %s (%s) %s with severity %s''
                 [device_name device, py_or descr ''no description'',
                  passed_or_failed sev, severity_name sev] # evs, out)))"

subsection \<open>\<open>main\<close>\<close>

text \<open>
  The \<open>for\<close> loop of \<open>main\<close> drives the generator: the generator's own events happen as
  they come, and at each yielded tuple the loop body, \<open>log_results\<close>, runs. An exception
  of the body ends the loop.
\<close>

fun main_loop :: "'c collaborators \<Rightarrow> 'c event list \<Rightarrow> 'c event list \<times> unit outcome" where
  "main_loop ext [] = ([], Returns ())"
| "main_loop ext (Yield (dev, config, sev, results) # rest) =
    (case log_results ext dev sev config results None of
       (evs, Raises e) \<Rightarrow> (evs, Raises e)
     | (evs, Returns u) \<Rightarrow>
         (case main_loop ext rest of (evs', out) \<Rightarrow> (evs @ evs', out)))"
| "main_loop ext (ev # rest) =
    (case main_loop ext rest of (evs', out) \<Rightarrow> (ev # evs', out))"

text \<open>
  \<open>main\<close> has no \<open>return\<close> statement: a call that does not raise returns \<open>None\<close>. Its type
  is written \<open>Severity option\<close>, so that what \<open>main\<close> hands back about the severity of the
  whole run is a statement about this value.
\<close>

definition main :: "'c collaborators \<Rightarrow> string \<Rightarrow> string list option \<Rightarrow> bool
    \<Rightarrow> 'c event list \<times> Severity option outcome" where
  "main ext filename filtered_devices cleanup =
     (case deserialize ext filename of
        None \<Rightarrow> ([], Raises LoadError)
      | Some config \<Rightarrow>
          (case main_loop ext (check_config_file ext config filtered_devices) of
             (evs, out) \<Rightarrow>
               (evs @ (if cleanup then [OphydCleanup] else []),
                (case out of Raises e \<Rightarrow> Raises e | Returns u \<Rightarrow> Returns None))))"

section \<open>\<open>atef/widgets/config/window.py\<close>\<close>

text \<open>\<open>list.index(value)\<close>: the first position holding the value, \<open>ValueError\<close> if there is none.\<close>

fun list_index :: "'a list \<Rightarrow> 'a \<Rightarrow> py_error + nat" where
  "list_index [] v = Inl ValueError"
| "list_index (x # xs) v =
    (if x = v then Inr 0
     else (case list_index xs v of Inl e \<Rightarrow> Inl e | Inr i \<Rightarrow> Inr (Suc i)))"

text \<open>\<open>xs[i]\<close> for a non-negative index: \<open>IndexError\<close> out of range.\<close>

definition list_get :: "'a list \<Rightarrow> nat \<Rightarrow> py_error + 'a" where
  "list_get xs i = (if i < length xs then Inr (xs ! i) else Inl IndexError)"

definition match_in_list_mapping :: "'a \<Rightarrow> 'a list \<Rightarrow> 'b list \<Rightarrow> py_error + 'b option" where
  "match_in_list_mapping v list1 list2 =
     (if v \<notin> set list1 then Inr None
      else (case list_index list1 v of
              Inl e \<Rightarrow> Inl e
            | Inr i \<Rightarrow> (case list_get list2 i of Inl e \<Rightarrow> Inl e | Inr y \<Rightarrow> Inr (Some y))))"

section \<open>The specification's notions\<close>

text \<open>
  The spec's words for the levels: success maps to debug, warning to warning, error and
  internal_error to error.
\<close>

fun spec_log_level :: "Severity \<Rightarrow> int" where
  "spec_log_level success = DEBUG"
| "spec_log_level warning = WARNING"
| "spec_log_level error = ERROR"
| "spec_log_level internal_error = ERROR"

text \<open>
  The spec's words for the severity of a whole checkout: the maximum over the entries.
  A run without entries has none.
\<close>

fun spec_overall_severity :: "Severity list \<Rightarrow> Severity option" where
  "spec_overall_severity [] = None"
| "spec_overall_severity (s # ss) =
     Some (fold (\<lambda>a b. if severity_value b \<le> severity_value a then a else b) ss s)"

text \<open>The tuple the first loop's body yields for a PV configuration (lines 62 to 67).\<close>

definition pv_entry :: "'c collaborators \<Rightarrow> 'c PVConfiguration \<Rightarrow> 'c entry" where
  "pv_entry ext pv_config =
     (case pv_config_to_device_config ext pv_config of (dev_cls, dev_config) \<Rightarrow>
        (let dev = \<lparr>device_cls = dev_cls, device_name = py_or (name pv_config) ''PVConfig''\<rparr> in
           (case check_device ext dev (checks dev_config) of (sev, results) \<Rightarrow>
              (dev, PV pv_config, sev, results))))"

text \<open>
  The device the two \<open>try\<close> blocks of the second loop arrive at (lines 78 to 98): none when
  the name is not in the database or when the search result's \<open>get()\<close> raises.
\<close>

definition resolve :: "'c collaborators \<Rightarrow> string \<Rightarrow> Device option" where
  "resolve ext dev_name =
     (case client ext dev_name of
        None \<Rightarrow> None
      | Some (Inl ex) \<Rightarrow> None
      | Some (Inr dev) \<Rightarrow> Some dev)"

text \<open>The tuple the second loop's body yields for a resolved device (lines 100 and 101).\<close>

definition device_entry :: "'c collaborators \<Rightarrow> Device \<Rightarrow> 'c DeviceConfiguration \<Rightarrow> 'c entry" where
  "device_entry ext dev dev_config =
     (case check_device ext dev (checks dev_config) of (sev, results) \<Rightarrow>
        (dev, Dev dev_config, sev, results))"

text \<open>What the loop of \<open>main\<close> makes of one event of the generator.\<close>

fun logged :: "'c collaborators \<Rightarrow> 'c event \<Rightarrow> 'c event list" where
  "logged ext (Yield (dev, config, sev, results)) =
     fst (log_results ext dev sev config results None)"
| "logged ext ev = [ev]"

section \<open>Example inputs\<close>

text \<open>
  A database that knows the device \<open>good\<close>, fails to instantiate the device \<open>broken\<close> and
  knows no other name; checks are numbers, and a check passes when it is 0.
\<close>

definition example_device :: Device where
  "example_device = \<lparr>device_cls = ''Motor'', device_name = ''good''\<rparr>"

definition example_file :: "nat ConfigurationFile" where
  "example_file =
     \<lparr>pvs = [\<lparr>name = Some ''pv1'', description = None, checks = 0\<rparr>,
             \<lparr>name = Some ''pv2'', description = Some ''second'', checks = 1\<rparr>],
      devices = [(''good'', \<lparr>name = None, description = None, checks = 0\<rparr>),
                 (''missing'', \<lparr>name = None, description = None, checks = 1\<rparr>)]\<rparr>"

definition example_unresolved_file :: "nat ConfigurationFile" where
  "example_unresolved_file =
     \<lparr>pvs = [],
      devices = [(''missing'', \<lparr>name = None, description = None, checks = 1\<rparr>),
                 (''broken'', \<lparr>name = None, description = None, checks = 1\<rparr>),
                 (''good'', \<lparr>name = None, description = None, checks = 0\<rparr>)]\<rparr>"

definition example_pv_file :: "nat ConfigurationFile" where
  "example_pv_file =
     \<lparr>pvs = [\<lparr>name = Some ''pv1'', description = None, checks = 0\<rparr>,
             \<lparr>name = None, description = None, checks = 1\<rparr>],
      devices = []\<rparr>"

definition example_collaborators :: "nat collaborators" where
  "example_collaborators =
     \<lparr>pv_config_to_device_config = (\<lambda>pv_config. (''PVDevice'', pv_config)),
      check_device = (\<lambda>dev c. if c = 0 then (success, [])
                               else (error, [\<lparr>severity = error, reason = ''mismatch''\<rparr>])),
      client = (\<lambda>n. if n = ''good'' then Some (Inr example_device)
                     else if n = ''broken''
                       then Some (Inl \<lparr>exn_class = ''RuntimeError'', exn_text = ''boom''\<rparr>)
                     else None),
      isEnabledFor = (\<lambda>level. INFO \<le> level),
      deserialize = (\<lambda>filename. if filename = ''checkout.yaml'' then Some example_file else None)\<rparr>"

section \<open>Properties of \<open>match_in_list_mapping\<close>\<close>

lemma list_index_first:
  "v \<in> set xs \<Longrightarrow>
     \<exists>i. list_index xs v = Inr i \<and> i < length xs \<and> xs ! i = v \<and> (\<forall>j<i. xs ! j \<noteq> v)"
proof (induction xs)
  case Nil
  then show ?case by simp
next
  case (Cons x xs)
  show ?case
  proof (cases "x = v")
    case True
    then show ?thesis by simp
  next
    case False
    with Cons.prems have "v \<in> set xs" by simp
    from Cons.IH [OF this] obtain i where
      i: "list_index xs v = Inr i" "i < length xs" "xs ! i = v" "\<forall>j<i. xs ! j \<noteq> v"
      by blast
    have "\<forall>j<Suc i. (x # xs) ! j \<noteq> v"
    proof (intro allI impI)
      fix j assume "j < Suc i"
      then show "(x # xs) ! j \<noteq> v"
        using False i(4) by (cases j) auto
    qed
    with False i show ?thesis by simp
  qed
qed

text \<open>Without the length condition the index access can fail.\<close>

lemma match_in_list_mapping_short_list2:
  "match_in_list_mapping (2::nat) [1, 2] [10 :: nat] = Inl IndexError"
  by (simp add: match_in_list_mapping_def list_get_def)

text \<open>
  C10. If \<open>list2\<close> is at least as long as \<open>list1\<close>, then \<open>match_in_list_mapping v list1 list2\<close>
  returns \<open>None\<close> when \<open>v\<close> is not an element of \<open>list1\<close>, and otherwise returns
  \<open>list2[i]\<close> for the index \<open>i\<close> of the first occurrence of \<open>v\<close> in \<open>list1\<close>; that index is
  within \<open>list2\<close>, and the call raises nothing.
\<close>

theorem match_in_list_mapping_spec:
  assumes "length list1 \<le> length list2"
  shows "(v \<notin> set list1 \<longrightarrow> match_in_list_mapping v list1 list2 = Inr None) \<and>
         (v \<in> set list1 \<longrightarrow>
            (\<exists>i. i < length list1 \<and> list1 ! i = v \<and> (\<forall>j<i. list1 ! j \<noteq> v) \<and>
                 i < length list2 \<and>
                 match_in_list_mapping v list1 list2 = Inr (Some (list2 ! i)))) \<and>
         (\<forall>e. match_in_list_mapping v list1 list2 \<noteq> Inl e)"
proof (cases "v \<in> set list1")
  case False
  then show ?thesis by (simp add: match_in_list_mapping_def)
next
  case True
  from list_index_first [OF True] obtain i where
    i: "list_index list1 v = Inr i" "i < length list1" "list1 ! i = v" "\<forall>j<i. list1 ! j \<noteq> v"
    by blast
  from i(2) assms have l2: "i < length list2" by simp
  with True i(1) have "match_in_list_mapping v list1 list2 = Inr (Some (list2 ! i))"
    by (simp add: match_in_list_mapping_def list_get_def)
  with True i l2 show ?thesis by auto
qed

theorem match_in_list_mapping_spec_witness:
  "length [1, 2, 2 :: nat] \<le> length [10, 20, 30 :: nat] \<and>
   match_in_list_mapping 2 [1, 2, 2 :: nat] [10, 20, 30 :: nat] = Inr (Some 20) \<and>
   match_in_list_mapping 5 [1, 2, 2 :: nat] [10, 20, 30 :: nat] = Inr None"
  using match_in_list_mapping_spec [of "[1, 2, 2 :: nat]" "[10, 20, 30 :: nat]" 2]
  by (simp add: match_in_list_mapping_def list_get_def)

section \<open>Properties of \<open>log_results\<close>\<close>

text \<open>
  C9. \<open>log_results\<close> reports a device as "passed" exactly when its severity is success or
  warning, that is when the severity is at most warning in the severity order, and as
  "FAILED" exactly when its severity is error or internal_error; the word is the third
  argument of the first record \<open>log_results\<close> logs.
\<close>

theorem passed_or_failed_spec:
  "(passed_or_failed sev = ''passed'') = (sev = success \<or> sev = warning) \<and>
   (passed_or_failed sev = ''FAILED'') = (sev = error \<or> sev = internal_error) \<and>
   (passed_or_failed sev = ''passed'') = (severity_value sev \<le> severity_value warning) \<and>
   hd (fst (log_results ext device sev config results m)) =
     LogCall INFO ''Device %s (%s) %s with severity %s''
       [device_name device,
        py_or (case config of PV c \<Rightarrow> description c | Dev c \<Rightarrow> description c) ''no description'',
        passed_or_failed sev, severity_name sev]"
  by (cases sev) (simp_all add: passed_or_failed_def log_results_def Let_def split: prod.splits)

text \<open>With the default mapping every severity has a level, so the loop raises nothing.\<close>

lemma log_reasons_default:
  "log_reasons enabled default_severity_to_log_level results =
     (map (\<lambda>r. LogCall (spec_log_level (severity r)) (reason r) [])
          (filter (\<lambda>r. enabled (spec_log_level (severity r))) results),
      Returns ())"
proof (induction results)
  case Nil
  show ?case by simp
next
  case (Cons r rs)
  have m: "map_of default_severity_to_log_level (severity r) = Some (spec_log_level (severity r))"
    by (cases "severity r") (simp_all add: default_severity_to_log_level_def)
  show ?case
    by (simp add: m Cons.IH)
qed

lemma log_results_default_returns:
  "snd (log_results ext dev sev config results None) = Returns ()"
  by (simp add: log_results_def log_reasons_default)

text \<open>
  C6. The default mapping sends success to \<open>DEBUG\<close>, warning to \<open>WARNING\<close>, and error and
  internal_error to \<open>ERROR\<close>; \<open>log_results\<close>, after its summary record, logs the reason of
  each result at the level the mapping gives its severity, in order (a result whose level
  the logger has disabled is passed over, as the logger itself would do), and raises
  nothing.
\<close>

theorem severity_to_log_level_spec:
  "map_of default_severity_to_log_level sev = Some (spec_log_level sev) \<and>
   log_results ext device sev' config results None =
     (LogCall INFO ''Device %s (%s) %s with severity %s''
        [device_name device,
         py_or (case config of PV c \<Rightarrow> description c | Dev c \<Rightarrow> description c) ''no description'',
         passed_or_failed sev', severity_name sev']
      # map (\<lambda>r. LogCall (spec_log_level (severity r)) (reason r) [])
          (filter (\<lambda>r. isEnabledFor ext (spec_log_level (severity r))) results),
      Returns ())"
proof
  show "map_of default_severity_to_log_level sev = Some (spec_log_level sev)"
    by (cases sev) (simp_all add: default_severity_to_log_level_def)
next
  show "log_results ext device sev' config results None =
     (LogCall INFO ''Device %s (%s) %s with severity %s''
        [device_name device,
         py_or (case config of PV c \<Rightarrow> description c | Dev c \<Rightarrow> description c) ''no description'',
         passed_or_failed sev', severity_name sev']
      # map (\<lambda>r. LogCall (spec_log_level (severity r)) (reason r) [])
          (filter (\<lambda>r. isEnabledFor ext (spec_log_level (severity r))) results),
      Returns ())"
    by (simp add: log_results_def log_reasons_default)
qed

theorem severity_to_log_level_spec_witness:
  "map_of default_severity_to_log_level internal_error = Some 40 \<and>
   log_results example_collaborators example_device error
       (Dev \<lparr>name = None, description = Some ''a motor'', checks = 1\<rparr>)
       [\<lparr>severity = success, reason = ''fine''\<rparr>,
        \<lparr>severity = warning, reason = ''drifting''\<rparr>,
        \<lparr>severity = error, reason = ''mismatch''\<rparr>,
        \<lparr>severity = internal_error, reason = ''no value''\<rparr>] None =
     ([LogCall 20 ''Device %s (%s) %s with severity %s''
         [''good'', ''a motor'', ''FAILED'', ''error''],
       LogCall 30 ''drifting'' [],
       LogCall 40 ''mismatch'' [],
       LogCall 40 ''no value'' []],
      Returns ())"
  using severity_to_log_level_spec [of internal_error example_collaborators example_device error
      "Dev \<lparr>name = None, description = Some ''a motor'', checks = 1\<rparr>"
      "[\<lparr>severity = success, reason = ''fine''\<rparr>,
        \<lparr>severity = warning, reason = ''drifting''\<rparr>,
        \<lparr>severity = error, reason = ''mismatch''\<rparr>,
        \<lparr>severity = internal_error, reason = ''no value''\<rparr>]"]
  by (simp add: example_collaborators_def example_device_def passed_or_failed_def
        DEBUG_def INFO_def WARNING_def ERROR_def)

section \<open>Properties of \<open>check_config_file\<close>\<close>

subsection \<open>The two loops\<close>

lemma yields_append: "yields (xs @ ys) = yields xs @ yields ys"
  by (induction xs rule: yields.induct) simp_all

lemma yields_check_pvs:
  "yields (check_pvs ext F ps) =
     map (pv_entry ext) (filter (\<lambda>p. \<not> filtered_out F (name p)) ps)"
  by (induction ps) (simp_all add: pv_entry_def Let_def split: prod.splits)

lemma yields_check_devices:
  "yields (check_devices ext F ds) =
     map (\<lambda>(n, c). device_entry ext (the (resolve ext n)) c)
       (filter (\<lambda>(n, c). \<not> filtered_out F (Some n) \<and> resolve ext n \<noteq> None) ds)"
proof (induction ds)
  case Nil
  show ?case by simp
next
  case (Cons d ds)
  obtain n c where d: "d = (n, c)" by (cases d)
  show ?case unfolding d
    by (simp add: Cons.IH resolve_def device_entry_def
          split: option.splits sum.splits prod.splits)
qed

lemma check_devices_append:
  "check_devices ext F (xs @ ys) = check_devices ext F xs @ check_devices ext F ys"
proof (induction xs)
  case Nil
  show ?case by simp
next
  case (Cons d ds)
  obtain n c where d: "d = (n, c)" by (cases d)
  show ?case unfolding d
    by (simp add: Cons.IH split: option.splits sum.splits prod.splits)
qed

lemma check_pvs_empty_filter: "check_pvs ext (Some []) ps = check_pvs ext None ps"
  by (induction ps) simp_all

lemma check_devices_empty_filter: "check_devices ext (Some []) ds = check_devices ext None ds"
proof (induction ds)
  case Nil
  show ?case by simp
next
  case (Cons d ds)
  obtain n c where d: "d = (n, c)" by (cases d)
  show ?case unfolding d
    by (simp add: Cons.IH split: option.splits sum.splits prod.splits)
qed

lemma check_pvs_no_database_event:
  "filter is_database_event (check_pvs ext F ps) = []"
  by (induction ps) (simp_all add: Let_def split: prod.splits)

lemma check_pvs_no_lookup:
  "ClientGetItem n \<notin> set (check_pvs ext F ps) \<and> SearchResultGet n \<notin> set (check_pvs ext F ps)"
  by (induction ps) (simp_all add: Let_def split: prod.splits)

lemma check_devices_lookup_retained:
  "ClientGetItem n \<in> set (check_devices ext F ds) \<or> SearchResultGet n \<in> set (check_devices ext F ds)
     \<Longrightarrow> \<not> filtered_out F (Some n)"
proof (induction ds)
  case Nil
  then show ?case by simp
next
  case (Cons d ds)
  obtain m c where d: "d = (m, c)" by (cases d)
  from Cons show ?case unfolding d
    by (auto split: if_splits option.splits sum.splits prod.splits)
qed

lemma filtered_out_nonempty:
  "F \<noteq> [] \<Longrightarrow> filtered_out (Some F) n = (n \<notin> set (map Some F))"
  by (cases F; cases n) auto

lemma unresolved_device_logged:
  assumes "client ext n = None \<or> (\<exists>ex. client ext n = Some (Inl ex))"
    and "\<not> filtered_out F (Some n)"
  shows "\<exists>fmt args. LogCall ERROR fmt (n # args) \<in> set (check_devices ext F ((n, c) # ds))"
  using assms by (auto split: option.splits sum.splits)

subsection \<open>Devices that do not resolve\<close>

text \<open>
  C1, as the code has it. A device configuration whose name is not in the database
  (\<open>client[name]\<close> raises \<open>KeyError\<close>) or whose instantiation raises gets no output entry:
  the run yields exactly the entries it would yield for the file without that device, so
  every other device still gets its entry; and unless the device is filtered out, an
  error record naming it is logged.
\<close>

theorem unresolved_device_skipped:
  assumes "devices config = ds1 @ (n, c) # ds2"
    and "client ext n = None \<or> (\<exists>ex. client ext n = Some (Inl ex))"
  shows "yields (check_config_file ext config F) =
           yields (check_config_file ext (config\<lparr>devices := ds1 @ ds2\<rparr>) F) \<and>
         (\<not> filtered_out F (Some n) \<longrightarrow>
            (\<exists>fmt args. LogCall ERROR fmt (n # args) \<in> set (check_config_file ext config F)))"
proof
  from assms(2) have r: "resolve ext n = None"
    by (auto simp: resolve_def)
  have "yields (check_devices ext F (devices config)) = yields (check_devices ext F (ds1 @ ds2))"
    by (simp add: assms(1) yields_check_devices r)
  then show "yields (check_config_file ext config F) =
           yields (check_config_file ext (config\<lparr>devices := ds1 @ ds2\<rparr>) F)"
    by (simp add: check_config_file_def yields_append assms(1))
next
  show "\<not> filtered_out F (Some n) \<longrightarrow>
            (\<exists>fmt args. LogCall ERROR fmt (n # args) \<in> set (check_config_file ext config F))"
  proof
    assume "\<not> filtered_out F (Some n)"
    from unresolved_device_logged [OF assms(2) this, of c ds2]
    obtain fmt args where "LogCall ERROR fmt (n # args) \<in> set (check_devices ext F ((n, c) # ds2))"
      by blast
    then have "LogCall ERROR fmt (n # args) \<in> set (check_config_file ext config F)"
      by (simp add: check_config_file_def assms(1) check_devices_append)
    then show "\<exists>fmt args. LogCall ERROR fmt (n # args) \<in> set (check_config_file ext config F)"
      by blast
  qed
qed

theorem unresolved_device_skipped_witness:
  "devices example_file =
     [(''good'', \<lparr>name = None, description = None, checks = 0\<rparr>)]
       @ (''missing'', \<lparr>name = None, description = None, checks = 1\<rparr>) # [] \<and>
   client example_collaborators ''missing'' = None \<and>
   yields (check_config_file example_collaborators example_file None) =
     yields (check_config_file example_collaborators
        (example_file\<lparr>devices := [(''good'', \<lparr>name = None, description = None, checks = 0\<rparr>)] @ []\<rparr>) None) \<and>
   LogCall ERROR ''Device %s not in happi database; skipping'' [''missing'']
     \<in> set (check_config_file example_collaborators example_file None)"
proof -
  have d: "devices example_file =
     [(''good'', \<lparr>name = None, description = None, checks = 0\<rparr>)]
       @ (''missing'', \<lparr>name = None, description = None, checks = 1::nat\<rparr>) # []"
    by (simp add: example_file_def)
  have c: "client example_collaborators ''missing'' = None
             \<or> (\<exists>ex. client example_collaborators ''missing'' = Some (Inl ex))"
    by (simp add: example_collaborators_def)
  have l: "LogCall ERROR ''Device %s not in happi database; skipping'' [''missing'']
     \<in> set (check_config_file example_collaborators example_file None)"
    by (simp add: check_config_file_def example_file_def example_collaborators_def)
  from unresolved_device_skipped [OF d c, of None] d l show ?thesis
    by (simp add: example_collaborators_def)
qed

text \<open>
  The run over a file whose first device is not in the database and whose second cannot be
  instantiated: the only entry is the third device's, with severity success. Neither
  unresolved device has an entry, and no entry has severity error.
\<close>

theorem unresolved_device_counterexample:
  "client example_collaborators ''missing'' = None \<and>
   client example_collaborators ''broken'' =
     Some (Inl \<lparr>exn_class = ''RuntimeError'', exn_text = ''boom''\<rparr>) \<and>
   map fst (devices example_unresolved_file) = [''missing'', ''broken'', ''good''] \<and>
   yields (check_config_file example_collaborators example_unresolved_file None) =
     [(example_device, Dev \<lparr>name = None, description = None, checks = 0\<rparr>, success, [])]"
  by (simp add: check_config_file_def example_unresolved_file_def example_collaborators_def)

subsection \<open>One entry per configuration\<close>

text \<open>
  C2, as the code has it. The run yields exactly one tuple for each retained PV
  configuration, in sequence order, followed by exactly one tuple for each retained device
  configuration whose device resolves, in mapping order; nothing else is yielded, and a
  retained device that does not resolve has no tuple. A configuration is retained when no
  filter or an empty filter is given, or when its name is in the filter.
\<close>

theorem one_entry_per_resolved_configuration:
  "yields (check_config_file ext config F) =
     map (pv_entry ext) (filter (\<lambda>p. \<not> filtered_out F (name p)) (pvs config)) @
     map (\<lambda>(n, c). device_entry ext (the (resolve ext n)) c)
       (filter (\<lambda>(n, c). \<not> filtered_out F (Some n) \<and> resolve ext n \<noteq> None) (devices config))"
  by (simp add: check_config_file_def yields_append yields_check_pvs yields_check_devices)

theorem one_entry_per_resolved_configuration_witness:
  "yields (check_config_file example_collaborators example_file None) =
     [(\<lparr>device_cls = ''PVDevice'', device_name = ''pv1''\<rparr>,
       PV \<lparr>name = Some ''pv1'', description = None, checks = 0\<rparr>, success, []),
      (\<lparr>device_cls = ''PVDevice'', device_name = ''pv2''\<rparr>,
       PV \<lparr>name = Some ''pv2'', description = Some ''second'', checks = 1\<rparr>,
       error, [\<lparr>severity = error, reason = ''mismatch''\<rparr>]),
      (example_device, Dev \<lparr>name = None, description = None, checks = 0\<rparr>, success, [])]"
  using one_entry_per_resolved_configuration [of example_collaborators example_file None]
  by (simp add: example_file_def example_collaborators_def pv_entry_def device_entry_def
        resolve_def)

text \<open>
  Without a filter all four configurations of the example file are retained, and the run
  yields three tuples: the device that is not in the database is omitted.
\<close>

theorem one_entry_per_configuration_counterexample:
  "length (yields (check_config_file example_collaborators example_file None)) = 3 \<and>
   length (pvs example_file) + length (devices example_file) = 4"
  by (simp add: check_config_file_def example_file_def example_collaborators_def)

subsection \<open>Filtering\<close>

text \<open>
  C3, as the code has it. With a non-empty filter list \<open>F\<close> the run yields entries exactly
  for the PV configurations whose name is in \<open>F\<close> and for the device configurations whose
  name is in \<open>F\<close> and resolves in the database; a configuration whose name is not in \<open>F\<close>
  has no entry at all.
\<close>

theorem filter_keeps_named_configurations:
  assumes "F \<noteq> []"
  shows "yields (check_config_file ext config (Some F)) =
     map (pv_entry ext) (filter (\<lambda>p. name p \<in> set (map Some F)) (pvs config)) @
     map (\<lambda>(n, c). device_entry ext (the (resolve ext n)) c)
       (filter (\<lambda>(n, c). n \<in> set F \<and> resolve ext n \<noteq> None) (devices config))"
proof -
  have dv: "\<And>n. (Some n \<in> Some ` set F) = (n \<in> set F)"
    by auto
  show ?thesis
    by (simp add: check_config_file_def yields_append yields_check_pvs yields_check_devices
          filtered_out_nonempty [OF assms] dv)
qed

theorem filter_keeps_named_configurations_witness:
  "[''pv2'', ''good''] \<noteq> [] \<and>
   yields (check_config_file example_collaborators example_file (Some [''pv2'', ''good''])) =
     [(\<lparr>device_cls = ''PVDevice'', device_name = ''pv2''\<rparr>,
       PV \<lparr>name = Some ''pv2'', description = Some ''second'', checks = 1\<rparr>,
       error, [\<lparr>severity = error, reason = ''mismatch''\<rparr>]),
      (example_device, Dev \<lparr>name = None, description = None, checks = 0\<rparr>, success, [])]"
  using filter_keeps_named_configurations [of "[''pv2'', ''good'']" example_collaborators example_file]
  by (simp add: example_file_def example_collaborators_def pv_entry_def device_entry_def
        resolve_def)

text \<open>
  The filter names one device of the file, and that device is not in the database: the
  run yields nothing, although a configuration with a name in the filter exists.
\<close>

theorem filter_keeps_named_configurations_counterexample:
  "''missing'' \<in> set [''missing''] \<and>
   map fst (devices example_file) = [''good'', ''missing''] \<and>
   yields (check_config_file example_collaborators example_file (Some [''missing''])) = []"
  by (simp add: check_config_file_def example_file_def example_collaborators_def)

text \<open>
  C8. An empty sequence as \<open>filtered_devices\<close> filters nothing: the run does exactly what it
  does without a filter, and so yields the same entries.
\<close>

theorem empty_filter_disables_filtering:
  "check_config_file ext config (Some []) = check_config_file ext config None \<and>
   yields (check_config_file ext config (Some [])) = yields (check_config_file ext config None)"
  by (simp add: check_config_file_def check_pvs_empty_filter check_devices_empty_filter)

theorem empty_filter_disables_filtering_witness:
  "length (yields (check_config_file example_collaborators example_file (Some []))) = 3 \<and>
   check_config_file example_collaborators example_file (Some []) =
     check_config_file example_collaborators example_file None"
  using empty_filter_disables_filtering [of example_collaborators example_file]
  by (simp add: check_config_file_def example_file_def example_collaborators_def)

subsection \<open>Calls into the device database\<close>

text \<open>
  C5. A device that the filter excludes (the filter is a non-empty list and the device's
  name is not in it) is never looked up in the database, and no search result of it is
  instantiated: the loop tests the filter first, and for a filtered-out device it only
  logs the skip and goes on to the next device.
\<close>

theorem filtered_out_device_never_resolved:
  assumes "filtered_out F (Some dev_name)"
  shows "ClientGetItem dev_name \<notin> set (check_config_file ext config F) \<and>
         SearchResultGet dev_name \<notin> set (check_config_file ext config F) \<and>
         check_devices ext F ((dev_name, dev_config) # rest) =
           LogCall DEBUG ''Skipping filtered-out device %s'' [dev_name]
             # check_devices ext F rest"
proof -
  have "ClientGetItem dev_name \<notin> set (check_devices ext F (devices config))"
       "SearchResultGet dev_name \<notin> set (check_devices ext F (devices config))"
    using check_devices_lookup_retained [of dev_name ext F "devices config"] assms by blast+
  then have "ClientGetItem dev_name \<notin> set (check_config_file ext config F)"
       "SearchResultGet dev_name \<notin> set (check_config_file ext config F)"
    using check_pvs_no_lookup [of dev_name ext F "pvs config"]
    by (simp_all add: check_config_file_def)
  moreover have "check_devices ext F ((dev_name, dev_config) # rest) =
           LogCall DEBUG ''Skipping filtered-out device %s'' [dev_name]
             # check_devices ext F rest"
    using assms by simp
  ultimately show ?thesis by simp
qed

theorem filtered_out_device_never_resolved_witness:
  "filtered_out (Some [''good'']) (Some ''missing'') \<and> ''missing'' \<notin> set [''good''] \<and>
   ClientGetItem ''missing'' \<notin> set (check_config_file example_collaborators example_file (Some [''good''])) \<and>
   SearchResultGet ''missing'' \<notin> set (check_config_file example_collaborators example_file (Some [''good''])) \<and>
   ClientGetItem ''good'' \<in> set (check_config_file example_collaborators example_file (Some [''good'']))"
  using filtered_out_device_never_resolved [of "Some [''good'']" "''missing''" example_collaborators example_file]
  by (simp add: check_config_file_def example_file_def example_collaborators_def)

text \<open>
  C7. The loop over the PV configurations makes no call into the device database: each
  retained PV configuration is turned into a device class and checked, giving its entry.
  The database client is constructed exactly when the \<open>devices\<close> mapping of the file is not
  empty, so a run over a file that has only PV configurations makes no database call.
\<close>

theorem pv_configurations_need_no_database:
  "filter is_database_event (check_pvs ext F ps) = [] \<and>
   yields (check_pvs ext F ps) =
     map (pv_entry ext) (filter (\<lambda>p. \<not> filtered_out F (name p)) ps) \<and>
   (ClientFromConfig \<in> set (check_config_file ext config F)) = (devices config \<noteq> []) \<and>
   (devices config = [] \<longrightarrow> filter is_database_event (check_config_file ext config F) = [])"
proof -
  have "ClientFromConfig \<notin> set (check_pvs ext F (pvs config))"
    using check_pvs_no_database_event [of ext F "pvs config"]
    by (auto simp: filter_empty_conv)
  then have "(ClientFromConfig \<in> set (check_config_file ext config F)) = (devices config \<noteq> [])"
    by (simp add: check_config_file_def)
  then show ?thesis
    by (simp add: check_pvs_no_database_event yields_check_pvs check_config_file_def)
qed

theorem pv_configurations_need_no_database_witness:
  "devices example_pv_file = [] \<and>
   filter is_database_event (check_config_file example_collaborators example_pv_file None) = [] \<and>
   ClientFromConfig \<notin> set (check_config_file example_collaborators example_pv_file None) \<and>
   ClientFromConfig \<in> set (check_config_file example_collaborators example_file None) \<and>
   length (yields (check_config_file example_collaborators example_pv_file None)) = 2"
  using pv_configurations_need_no_database [of example_collaborators None "pvs example_pv_file" example_pv_file]
    pv_configurations_need_no_database [of example_collaborators None "pvs example_file" example_file]
  by (simp add: check_config_file_def example_pv_file_def example_file_def example_collaborators_def)

section \<open>Properties of \<open>main\<close>\<close>

lemma main_loop_logged:
  "main_loop ext tr = (concat (map (logged ext) tr), Returns ())"
proof (induction ext tr rule: main_loop.induct)
  case (1 ext)
  show ?case by simp
next
  case (2 ext dev config sev results rest)
  obtain evs where l: "log_results ext dev sev config results None = (evs, Returns ())"
    using log_results_default_returns [of ext dev sev config results]
    by (cases "log_results ext dev sev config results None") auto
  from "2.IH" [OF l [symmetric]] l show ?case by simp
qed (simp_all)

text \<open>
  C4, as the code has it. \<open>main\<close> computes no severity of the whole checkout. For a file
  that loads, it runs the generator, hands each yielded entry to \<open>log_results\<close>, which logs
  that entry's own severity and the reasons of its results, then cleans up if asked to,
  and returns nothing.
\<close>

theorem main_reports_each_entry:
  assumes "deserialize ext filename = Some config"
  shows "main ext filename F cleanup =
     (concat (map (logged ext) (check_config_file ext config F))
        @ (if cleanup then [OphydCleanup] else []),
      Returns None)"
  by (simp add: main_def assms main_loop_logged)

theorem main_reports_each_entry_witness:
  "deserialize example_collaborators ''checkout.yaml'' = Some example_file \<and>
   main example_collaborators ''checkout.yaml'' (Some [''pv2'']) True =
     ([LogCall DEBUG ''Skipping filtered-out PV-only configuration %s'' [''pv1''],
       LogCall DEBUG ''PV-only configuration %s -> %s'' [''pv2'', ''PVDevice''],
       LogCall INFO ''Device %s (%s) %s with severity %s''
         [''pv2'', ''second'', ''FAILED'', ''error''],
       LogCall ERROR ''mismatch'' [],
       ClientFromConfig,
       LogCall DEBUG ''Skipping filtered-out device %s'' [''good''],
       LogCall DEBUG ''Skipping filtered-out device %s'' [''missing''],
       OphydCleanup],
      Returns None)"
proof -
  have d: "deserialize example_collaborators ''checkout.yaml'' = Some example_file"
    by (simp add: example_collaborators_def)
  from main_reports_each_entry [OF d, of "Some [''pv2'']" True] d show ?thesis
    by (simp add: check_config_file_def example_file_def example_collaborators_def
          log_results_def default_severity_to_log_level_def passed_or_failed_def
          DEBUG_def INFO_def WARNING_def ERROR_def)
qed

text \<open>
  The entries of the example file have the severities success, error and success, whose
  maximum is error; \<open>main\<close> returns \<open>None\<close>.
\<close>

theorem overall_severity_counterexample:
  "snd (main example_collaborators ''checkout.yaml'' None True) = Returns None \<and>
   spec_overall_severity
     (map (\<lambda>(dev, config, sev, results). sev)
        (yields (check_config_file example_collaborators example_file None))) = Some error"
  by (simp add: main_def check_config_file_def example_file_def example_collaborators_def
        log_results_def default_severity_to_log_level_def Let_def
        DEBUG_def INFO_def WARNING_def ERROR_def)

end
